theory Spec2Isabelle
  imports Complex_Main
begin

section \<open>Adversarial-example utilities (lib/utils.py): a shallow embedding\<close>

text \<open>
  The embedded functions are \<open>check_mask\<close>, \<open>to_class\<close>, \<open>filter_samples\<close>, \<open>eval_adv\<close>,
  \<open>find_sign_area\<close>, \<open>fg\<close> and \<open>iterative\<close> of \<^verbatim>\<open>src/lib/utils.py\<close>.

  Numbers. The program computes on numpy floating-point arrays. A value is modelled as
  an \<open>npfloat\<close>: either a finite number, carried as an exact real (rounding, overflow,
  underflow, signed zeros and the float32 cast of the result buffers are not modelled),
  or one of the IEEE special values \<open>+inf\<close>, \<open>-inf\<close>, \<open>nan\<close>. The special values are kept
  because numpy array arithmetic does not raise on a division by zero: it stores
  \<open>nan\<close> or \<open>inf\<close> and goes on, and several properties of the attacks depend on that.
  The properties proved of the attacks are evaluations at inputs where exact and
  floating-point arithmetic agree (norms 0 and 1), and facts that hold in both.
\<close>

subsection \<open>numpy scalars\<close>

datatype npfloat = Fin real | PInf | NInf | NaN

datatype error = IndexError | ValueError | ShapeError

fun is_fin :: "npfloat \<Rightarrow> bool" where
  "is_fin (Fin _) = True"
| "is_fin _ = False"

text \<open>The infinity of a given sign (\<open>True\<close> is positive).\<close>

fun inf_of :: "bool \<Rightarrow> npfloat" where
  "inf_of True = PInf"
| "inf_of False = NInf"

fun np_add :: "npfloat \<Rightarrow> npfloat \<Rightarrow> npfloat" where
  "np_add (Fin a) (Fin b) = Fin (a + b)"
| "np_add NaN _ = NaN"
| "np_add _ NaN = NaN"
| "np_add PInf NInf = NaN"
| "np_add NInf PInf = NaN"
| "np_add PInf _ = PInf"
| "np_add _ PInf = PInf"
| "np_add NInf _ = NInf"
| "np_add _ NInf = NInf"

fun np_mul :: "npfloat \<Rightarrow> npfloat \<Rightarrow> npfloat" where
  "np_mul (Fin a) (Fin b) = Fin (a * b)"
| "np_mul NaN _ = NaN"
| "np_mul _ NaN = NaN"
| "np_mul (Fin a) PInf = (if a = 0 then NaN else inf_of (0 < a))"
| "np_mul (Fin a) NInf = (if a = 0 then NaN else inf_of (a < 0))"
| "np_mul PInf (Fin b) = (if b = 0 then NaN else inf_of (0 < b))"
| "np_mul NInf (Fin b) = (if b = 0 then NaN else inf_of (b < 0))"
| "np_mul PInf PInf = PInf"
| "np_mul NInf NInf = PInf"
| "np_mul PInf NInf = NInf"
| "np_mul NInf PInf = NInf"

text \<open>
  Division as numpy does it on floats: no exception, \<open>0/0\<close> is \<open>nan\<close> and \<open>a/0\<close> is an
  infinity of the sign of \<open>a\<close>. Every zero divisor of the program is a \<open>+0.0\<close> (a norm,
  \<open>float(n_sample)\<close>, \<open>float(h * w)\<close>), so a zero divisor is read as \<open>+0.0\<close>.
\<close>

fun np_div :: "npfloat \<Rightarrow> npfloat \<Rightarrow> npfloat" where
  "np_div (Fin a) (Fin b) =
     (if b = 0 then (if a = 0 then NaN else inf_of (0 < a)) else Fin (a / b))"
| "np_div NaN _ = NaN"
| "np_div _ NaN = NaN"
| "np_div (Fin a) PInf = Fin 0"
| "np_div (Fin a) NInf = Fin 0"
| "np_div PInf (Fin b) = inf_of (0 \<le> b)"
| "np_div NInf (Fin b) = inf_of (b < 0)"
| "np_div PInf PInf = NaN"
| "np_div PInf NInf = NaN"
| "np_div NInf PInf = NaN"
| "np_div NInf NInf = NaN"

fun np_sqrt :: "npfloat \<Rightarrow> npfloat" where
  "np_sqrt (Fin a) = (if a < 0 then NaN else Fin (sqrt a))"
| "np_sqrt PInf = PInf"
| "np_sqrt NInf = NaN"
| "np_sqrt NaN = NaN"

text \<open>Comparison \<open>a < b\<close>: false as soon as one side is \<open>nan\<close>.\<close>

fun np_lt :: "npfloat \<Rightarrow> npfloat \<Rightarrow> bool" where
  "np_lt (Fin a) (Fin b) = (a < b)"
| "np_lt NaN _ = False"
| "np_lt _ NaN = False"
| "np_lt _ NInf = False"
| "np_lt PInf _ = False"
| "np_lt NInf _ = True"
| "np_lt _ PInf = True"

text \<open>\<open>np.clip(a, 0, 1)\<close> on one entry: \<open>minimum(maximum(a, 0), 1)\<close>, which lets \<open>nan\<close> through.\<close>

fun np_clip01 :: "npfloat \<Rightarrow> npfloat" where
  "np_clip01 (Fin a) = Fin (min (max a 0) 1)"
| "np_clip01 PInf = Fin 1"
| "np_clip01 NInf = Fin 0"
| "np_clip01 NaN = NaN"

text \<open>An entry that is a number of the interval \<open>[0, 1]\<close>.\<close>

fun in_unit :: "npfloat \<Rightarrow> bool" where
  "in_unit (Fin a) = (0 \<le> a \<and> a \<le> 1)"
| "in_unit _ = False"

subsection \<open>\<open>check_mask\<close>\<close>

text \<open>
  A 2-D integer array is the list of its rows. \<open>shape0\<close> is \<open>mask.shape[0]\<close>; \<open>shape1\<close> is
  \<open>mask.shape[1]\<close>, read off the first row (an array with no row has area 0 whatever its
  second dimension is). The thresholds 0.1 and 0.9 are the exact rationals.
\<close>

type_synonym array2 = "nat list list"

definition MASK_THRES_MIN :: real where
  "MASK_THRES_MIN = 1 / 10"

definition MASK_THRES_MAX :: real where
  "MASK_THRES_MAX = 9 / 10"

definition shape0 :: "array2 \<Rightarrow> nat" where
  "shape0 m = length m"

definition shape1 :: "array2 \<Rightarrow> nat" where
  "shape1 m = (case m of [] \<Rightarrow> 0 | r # _ \<Rightarrow> length r)"

definition np_sum2 :: "array2 \<Rightarrow> nat" where
  "np_sum2 m = sum_list (concat m)"

definition area_ratio :: "array2 \<Rightarrow> npfloat" where
  "area_ratio m = np_div (Fin (real (np_sum2 m))) (Fin (real (shape0 m * shape1 m)))"

definition check_mask :: "array2 \<Rightarrow> bool" where
  "check_mask m =
     (np_lt (Fin MASK_THRES_MIN) (area_ratio m) \<and> np_lt (area_ratio m) (Fin MASK_THRES_MAX))"

subsection \<open>Exceptions\<close>

text \<open>
  A call that raises is \<open>Inl\<close> of the error; \<open>bind_e\<close> runs the next statement on a
  value and passes an error on.
\<close>

definition bind_e :: "error + 'a \<Rightarrow> ('a \<Rightarrow> error + 'b) \<Rightarrow> error + 'b" where
  "bind_e m f = (case m of Inl e \<Rightarrow> Inl e | Inr v \<Rightarrow> f v)"

fun map_e :: "('a \<Rightarrow> error + 'b) \<Rightarrow> 'a list \<Rightarrow> error + 'b list" where
  "map_e f [] = Inr []"
| "map_e f (x # xs) = bind_e (f x) (\<lambda>v. bind_e (map_e f xs) (\<lambda>vs. Inr (v # vs)))"

text \<open>\<open>xs[i]\<close> with a non-negative index.\<close>

definition py_index :: "'a list \<Rightarrow> nat \<Rightarrow> error + 'a" where
  "py_index xs i = (if i < length xs then Inr (xs ! i) else Inl IndexError)"

text \<open>
  An optional boolean argument (\<open>None\<close> is Python's \<open>None\<close>) and its truth value in
  \<^verbatim>\<open>if target:\<close>.
\<close>

fun truthy :: "bool option \<Rightarrow> bool" where
  "truthy None = False"
| "truthy (Some b) = b"

subsection \<open>\<open>to_class\<close>\<close>

text \<open>
  \<open>np.argmax\<close> of one row: the first index of the greatest entry, \<open>ValueError\<close> on an
  empty row (\<open>bi\<close>, \<open>bv\<close> are the best index and value so far, \<open>i\<close> the next index).
  Scores and one-hot labels are finite numbers. A 2-D array is the list of its rows, a
  batch of samples the list of its slices along axis 0.
\<close>

fun argmax_acc :: "nat \<Rightarrow> 'a::linorder \<Rightarrow> nat \<Rightarrow> 'a list \<Rightarrow> nat" where
  "argmax_acc bi bv i [] = bi"
| "argmax_acc bi bv i (v # vs) =
     (if bv < v then argmax_acc i v (Suc i) vs else argmax_acc bi bv (Suc i) vs)"

definition np_argmax :: "'a::linorder list \<Rightarrow> error + nat" where
  "np_argmax row = (case row of [] \<Rightarrow> Inl ValueError | v # vs \<Rightarrow> Inr (argmax_acc 0 v 1 vs))"

definition to_class :: "real list list \<Rightarrow> error + nat list" where
  "to_class y = map_e np_argmax y"

subsection \<open>\<open>filter_samples\<close>\<close>

text \<open>
  Elementwise \<open>==\<close> and \<open>!=\<close> of two 1-D arrays of the same length. What numpy does
  with two lengths that differ (a broadcast, a scalar answer or an exception, by
  version) is outside the model and stands as \<open>ShapeError\<close>.
\<close>

definition np_eq :: "nat list \<Rightarrow> nat list \<Rightarrow> error + bool list" where
  "np_eq a b = (if length a = length b then Inr (map2 (\<lambda>u v. u = v) a b) else Inl ShapeError)"

definition np_ne :: "nat list \<Rightarrow> nat list \<Rightarrow> error + bool list" where
  "np_ne a b = (if length a = length b then Inr (map2 (\<lambda>u v. u \<noteq> v) a b) else Inl ShapeError)"

text \<open>\<open>np.array(np.where(c))[0]\<close>: the indices at which a 1-D boolean array holds.\<close>

definition np_where :: "bool list \<Rightarrow> nat list" where
  "np_where bs = filter (\<lambda>i. bs ! i) [0..<length bs]"

text \<open>\<open>np.unique\<close>: the distinct entries in increasing order.\<close>

definition np_unique :: "nat list \<Rightarrow> nat list" where
  "np_unique xs = remdups (sort xs)"

text \<open>
  \<open>np.delete(a, ids, axis=0)\<close>: the slices whose index is not in \<open>ids\<close>; an index out of
  range raises \<open>IndexError\<close>.
\<close>

definition np_delete :: "'a list \<Rightarrow> nat list \<Rightarrow> error + 'a list" where
  "np_delete xs ids =
     (if list_all (\<lambda>i. i < length xs) ids
      then Inr (map (\<lambda>i. xs ! i) (filter (\<lambda>i. i \<notin> set ids) [0..<length xs]))
      else Inl IndexError)"

text \<open>\<open>predict\<close> is \<open>model.predict\<close>: a batch of samples to one row of scores per sample.\<close>

definition filter_samples ::
  "('s list \<Rightarrow> real list list) \<Rightarrow> 's list \<Rightarrow> real list list \<Rightarrow> real list list option
     \<Rightarrow> error + ('s list \<times> real list list \<times> nat list)" where
  "filter_samples predict x y y_target =
     bind_e (to_class (predict x)) (\<lambda>y_pred.
     bind_e (to_class y) (\<lambda>y_true.
     bind_e (np_ne y_pred y_true) (\<lambda>ne.
     bind_e (case y_target of
               None \<Rightarrow> Inr (np_where ne)
             | Some yt \<Rightarrow>
                 bind_e (to_class yt) (\<lambda>y_tg.
                 bind_e (np_eq y_pred y_tg) (\<lambda>eq. Inr (np_where ne @ np_where eq)))) (\<lambda>del_id0.
     let del_id = sort (np_unique del_id0) in
     bind_e (np_delete x del_id) (\<lambda>x'.
     bind_e (np_delete y del_id) (\<lambda>y'. Inr (x', y', del_id)))))))"

subsection \<open>\<open>eval_adv\<close>\<close>

text \<open>
  The adversarial batch is a numpy array of any rank: its shape and its entries in row
  major order. \<open>slices\<close> are the items of \<^verbatim>\<open>for x in x_adv\<close>, the sub-arrays along axis 0.
  Here \<open>predict\<close> takes the 4-D batch array.
\<close>

record ndarray =
  shape :: "nat list"
  data :: "npfloat list"

definition ndim :: "ndarray \<Rightarrow> nat" where
  "ndim a = length (shape a)"

definition slices :: "ndarray \<Rightarrow> ndarray list" where
  "slices a =
     (case shape a of
        [] \<Rightarrow> []
      | n # rest \<Rightarrow>
          map (\<lambda>j. \<lparr>shape = rest,
                    data = take (prod_list rest) (drop (j * prod_list rest) (data a))\<rparr>)
            [0..<n])"

text \<open>What \<open>eval_adv\<close> returns: a scalar, a Python list, or \<open>None\<close>.\<close>

datatype eval_result = Scalar npfloat | RateList "npfloat list" | PyNone

text \<open>\<open>np.sum\<close> of a boolean array.\<close>

definition np_count :: "bool list \<Rightarrow> nat" where
  "np_count bs = length (filter (\<lambda>b. b) bs)"

text \<open>
  The two branches on \<open>target\<close>: \<open>np.sum(y_t == y_pred) / float(n_sample)\<close> or
  \<open>np.sum(y_t != y_pred) / float(n_sample)\<close>.
\<close>

definition suc_rate_of :: "bool option \<Rightarrow> nat list \<Rightarrow> nat list \<Rightarrow> nat \<Rightarrow> error + npfloat" where
  "suc_rate_of target y_t y_pred n_sample =
     bind_e (if truthy target then np_eq y_t y_pred else np_ne y_t y_pred) (\<lambda>bs.
       Inr (np_div (Fin (real (np_count bs))) (Fin (real n_sample))))"

text \<open>The result comes with the lines printed on standard output.\<close>

definition eval_adv ::
  "(ndarray \<Rightarrow> real list list) \<Rightarrow> ndarray \<Rightarrow> real list list \<Rightarrow> bool option
     \<Rightarrow> error + (string list \<times> eval_result)" where
  "eval_adv predict x_adv y target =
     (let n_sample = length y in
      bind_e (to_class y) (\<lambda>y_t.
        if ndim x_adv = 4 then
          bind_e (to_class (predict x_adv)) (\<lambda>y_pred.
          bind_e (suc_rate_of target y_t y_pred n_sample) (\<lambda>r. Inr ([], Scalar r)))
        else if ndim x_adv = 5 then
          bind_e (map_e (\<lambda>x. bind_e (to_class (predict x)) (\<lambda>y_pred.
                                suc_rate_of target y_t y_pred n_sample)) (slices x_adv))
            (\<lambda>suc_rate. Inr ([], RateList suc_rate))
        else Inr ([''Incorrect format for x_adv.''], PyNone)))"

subsection \<open>\<open>find_sign_area\<close>\<close>

text \<open>
  \<open>canny\<close>, \<open>binary_fill_holes\<close> and \<open>label\<close> are the library calls \<open>skimage.feature.canny\<close>,
  \<open>ndi.binary_fill_holes\<close> and \<open>ndi.label\<close>, taken as parameters; \<open>label\<close> returns the
  labelled image (0 is the background) and the number of components.
\<close>

text \<open>\<open>np.bincount\<close> of a flat array of labels: one count per value from 0 to the maximum.\<close>

definition np_bincount :: "nat list \<Rightarrow> nat list" where
  "np_bincount xs =
     (if xs = [] then [] else map (\<lambda>v. count_list xs v) [0..<Suc (fold max xs 0)])"

definition find_sign_area ::
  "('img \<Rightarrow> real \<Rightarrow> bool list list) \<Rightarrow> (bool list list \<Rightarrow> bool list list)
     \<Rightarrow> (bool list list \<Rightarrow> array2 \<times> nat) \<Rightarrow> 'img \<Rightarrow> real \<Rightarrow> error + array2" where
  "find_sign_area canny binary_fill_holes label img sigma =
     (let edges = canny img sigma;
          fill = binary_fill_holes edges;
          label_objects = fst (label fill);
          sizes = np_bincount (concat label_objects);
          mask_sizes = replicate (length sizes) (0::nat)
      in if sizes = [] then Inl IndexError
         else
           let sizes = sizes[0 := 0] in
           bind_e (np_argmax sizes) (\<lambda>k.
             let mask_sizes = mask_sizes[k := 1];
                 cleaned = map (map (\<lambda>l. mask_sizes ! l)) label_objects
             in Inr cleaned))"

subsection \<open>Arrays of the attacks\<close>

text \<open>
  A sample, a gradient and a mask are \<open>ndarray\<close>s; a batch is the list of its items
  along axis 0, as \<^verbatim>\<open>enumerate(x)\<close> and \<open>y[i]\<close>, \<open>mask[i]\<close> read it. A well-formed array has
  as many entries as its shape says.

  An elementwise operation of two arrays is modelled for operands of one shape; what
  numpy does with two different shapes (a broadcast or a \<open>ValueError\<close>) is outside the
  model and stands as \<open>ShapeError\<close>.
\<close>

definition wf_array :: "ndarray \<Rightarrow> bool" where
  "wf_array a = (length (data a) = prod_list (shape a))"

definition ew :: "(npfloat \<Rightarrow> npfloat \<Rightarrow> npfloat) \<Rightarrow> ndarray \<Rightarrow> ndarray \<Rightarrow> error + ndarray" where
  "ew f a b =
     (if shape a = shape b then Inr \<lparr>shape = shape a, data = map2 f (data a) (data b)\<rparr>
      else Inl ShapeError)"

text \<open>An array times a scalar: \<open>-1 * grad\<close>, \<open>grad * mag\<close>, \<open>grad * step_size\<close>.\<close>

definition scale :: "npfloat \<Rightarrow> ndarray \<Rightarrow> ndarray" where
  "scale c a = \<lparr>shape = shape a, data = map (np_mul c) (data a)\<rparr>"

text \<open>\<open>np.linalg.norm\<close> of an array of any rank: the root of the sum of the squares.\<close>

definition np_norm :: "ndarray \<Rightarrow> npfloat" where
  "np_norm a = np_sqrt (foldr np_add (map (\<lambda>v. np_mul v v) (data a)) (Fin 0))"

text \<open>
  \<^verbatim>\<open>grad /= np.linalg.norm(grad)\<close>. numpy divides entry by entry and raises nothing when
  the norm is zero, so the \<^verbatim>\<open>except ZeroDivisionError: raise\<close> around it never runs.
\<close>

definition normalize_grad :: "ndarray \<Rightarrow> ndarray" where
  "normalize_grad grad = \<lparr>shape = shape grad, data = map (\<lambda>v. np_div v (np_norm grad)) (data grad)\<rparr>"

definition clip01 :: "ndarray \<Rightarrow> ndarray" where
  "clip01 a = \<lparr>shape = shape a, data = map np_clip01 (data a)\<rparr>"

text \<open>
  \<^verbatim>\<open>np.repeat(mask[i, :, :, np.newaxis], N_CHANNEL, axis=2)\<close> for the item \<open>m = mask[i]\<close>:
  every entry of the 2-D mask repeated \<open>n_channel\<close> times along a new last axis. An item
  of rank below 2 raises \<open>IndexError\<close>; one of rank above 2 is outside the model. The
  constant \<open>N_CHANNEL\<close> comes from the parameter module and is a parameter here.
\<close>

definition mask_rep_of :: "nat \<Rightarrow> ndarray \<Rightarrow> error + ndarray" where
  "mask_rep_of n_channel m =
     (if length (shape m) < 2 then Inl IndexError
      else if length (shape m) > 2 then Inl ShapeError
      else Inr \<lparr>shape = shape m @ [n_channel],
                data = concat (map (replicate n_channel) (data m))\<rparr>)"

subsection \<open>\<open>fg\<close>\<close>

text \<open>
  \<open>gradient_input\<close> is \<^verbatim>\<open>gradient_input(grad_fn, x, y)\<close> of \<open>lib.keras_utils\<close> for the attacked
  model: the gradient of the loss at a sample, for a one-hot label. The optional argument
  \<open>mask\<close> is written \<open>mask_arg\<close>.
\<close>

type_synonym grad_oracle = "ndarray \<Rightarrow> real list \<Rightarrow> ndarray"

text \<open>Lines 333 to 336: the gradient with the sign of the attack mode.\<close>

definition fg_signed_grad :: "grad_oracle \<Rightarrow> ndarray \<Rightarrow> real list \<Rightarrow> bool option \<Rightarrow> ndarray" where
  "fg_signed_grad gradient_input x_in y_i target =
     (if truthy target then scale (Fin (- 1)) (gradient_input x_in y_i)
      else gradient_input x_in y_i)"

text \<open>Lines 333 to 341: the signed gradient, masked when a mask is given.\<close>

definition fg_masked_grad ::
  "nat \<Rightarrow> grad_oracle \<Rightarrow> real list list \<Rightarrow> bool option \<Rightarrow> ndarray list option \<Rightarrow> nat \<Rightarrow> ndarray
     \<Rightarrow> error + ndarray" where
  "fg_masked_grad n_channel gradient_input y target mask_arg i x_in =
     bind_e (py_index y i) (\<lambda>y_i.
       let grad = fg_signed_grad gradient_input x_in y_i target in
       case mask_arg of
         None \<Rightarrow> Inr grad
       | Some m \<Rightarrow>
           bind_e (py_index m i) (\<lambda>m_i.
           bind_e (mask_rep_of n_channel m_i) (\<lambda>mask_rep. ew np_mul grad mask_rep)))"

text \<open>The body of the loop over the samples: the row \<open>x_in + grad * mag\<close> over the magnitudes.\<close>

definition fg_sample ::
  "nat \<Rightarrow> grad_oracle \<Rightarrow> real list list \<Rightarrow> real list \<Rightarrow> bool option \<Rightarrow> ndarray list option \<Rightarrow> nat
     \<Rightarrow> ndarray \<Rightarrow> error + ndarray list" where
  "fg_sample n_channel gradient_input y mag_list target mask_arg i x_in =
     bind_e (fg_masked_grad n_channel gradient_input y target mask_arg i x_in) (\<lambda>grad.
       let grad = normalize_grad grad in
       map_e (\<lambda>mag. ew np_add x_in (scale (Fin mag) grad)) mag_list)"

fun fg_loop ::
  "nat \<Rightarrow> grad_oracle \<Rightarrow> real list list \<Rightarrow> real list \<Rightarrow> bool option \<Rightarrow> ndarray list option \<Rightarrow> nat
     \<Rightarrow> ndarray list \<Rightarrow> error + ndarray list list" where
  "fg_loop n_channel gradient_input y mag_list target mask_arg i [] = Inr []"
| "fg_loop n_channel gradient_input y mag_list target mask_arg i (x_in # xs) =
     bind_e (fg_sample n_channel gradient_input y mag_list target mask_arg i x_in) (\<lambda>row.
     bind_e (fg_loop n_channel gradient_input y mag_list target mask_arg (Suc i) xs) (\<lambda>rows.
       Inr (row # rows)))"

text \<open>
  The result \<open>x_adv\<close> is indexed \<open>x_adv[j][i]\<close>, magnitude first; the clip is applied to
  the whole of it after the loop. The progress lines are not modelled.
\<close>

definition fg ::
  "nat \<Rightarrow> grad_oracle \<Rightarrow> ndarray list \<Rightarrow> real list list \<Rightarrow> real list \<Rightarrow> bool option
     \<Rightarrow> ndarray list option \<Rightarrow> error + ndarray list list" where
  "fg n_channel gradient_input x y mag_list target mask_arg =
     bind_e (fg_loop n_channel gradient_input y mag_list target mask_arg 0 x) (\<lambda>rows.
       Inr (map (\<lambda>j. map (\<lambda>row. clip01 (row ! j)) rows) [0..<length mag_list]))"

subsection \<open>\<open>iterative\<close>\<close>

text \<open>Lines 405 to 408: the test is \<^verbatim>\<open>target is not None\<close>.\<close>

definition iterative_signed_grad :: "grad_oracle \<Rightarrow> ndarray \<Rightarrow> real list \<Rightarrow> bool option \<Rightarrow> ndarray" where
  "iterative_signed_grad gradient_input x_cur y_i target =
     (if target \<noteq> None then scale (Fin (- 1)) (gradient_input x_cur y_i)
      else gradient_input x_cur y_i)"

text \<open>Lines 401 and 402: \<open>mask_rep\<close>, computed once per sample when a mask is given.\<close>

definition iterative_mask_rep :: "nat \<Rightarrow> ndarray list option \<Rightarrow> nat \<Rightarrow> error + ndarray option" where
  "iterative_mask_rep n_channel mask_arg i =
     (case mask_arg of
        None \<Rightarrow> Inr None
      | Some m \<Rightarrow>
          bind_e (py_index m i) (\<lambda>m_i.
          bind_e (mask_rep_of n_channel m_i) (\<lambda>mask_rep. Inr (Some mask_rep))))"

text \<open>Lines 405 to 412: the signed gradient at the current sample, masked.\<close>

definition iterative_masked_grad ::
  "grad_oracle \<Rightarrow> real list list \<Rightarrow> bool option \<Rightarrow> ndarray option \<Rightarrow> nat \<Rightarrow> ndarray \<Rightarrow> error + ndarray" where
  "iterative_masked_grad gradient_input y target mask_rep i x_cur =
     bind_e (py_index y i) (\<lambda>y_i.
       let grad = iterative_signed_grad gradient_input x_cur y_i target in
       case mask_rep of
         None \<Rightarrow> Inr grad
       | Some mr \<Rightarrow> ew np_mul grad mr)"

text \<open>One pass of the inner loop: normalise, step, clip.\<close>

definition iterative_step ::
  "grad_oracle \<Rightarrow> real list list \<Rightarrow> real \<Rightarrow> bool option \<Rightarrow> ndarray option \<Rightarrow> nat \<Rightarrow> ndarray
     \<Rightarrow> error + ndarray" where
  "iterative_step gradient_input y step_size target mask_rep i x_cur =
     bind_e (iterative_masked_grad gradient_input y target mask_rep i x_cur) (\<lambda>grad.
       let grad = normalize_grad grad in
       bind_e (ew np_add x_cur (scale (Fin step_size) grad)) (\<lambda>x_cur. Inr (clip01 x_cur)))"

text \<open>\<^verbatim>\<open>for _ in range(n_step)\<close>, the number of passes still to run first.\<close>

fun iterative_steps :: "nat \<Rightarrow> (ndarray \<Rightarrow> error + ndarray) \<Rightarrow> ndarray \<Rightarrow> error + ndarray" where
  "iterative_steps 0 step x_cur = Inr x_cur"
| "iterative_steps (Suc n) step x_cur = bind_e (step x_cur) (iterative_steps n step)"

definition iterative_sample ::
  "nat \<Rightarrow> grad_oracle \<Rightarrow> real list list \<Rightarrow> int \<Rightarrow> real \<Rightarrow> bool option \<Rightarrow> ndarray list option \<Rightarrow> nat
     \<Rightarrow> ndarray \<Rightarrow> error + ndarray" where
  "iterative_sample n_channel gradient_input y n_step step_size target mask_arg i x_in =
     bind_e (iterative_mask_rep n_channel mask_arg i) (\<lambda>mask_rep.
       iterative_steps (nat n_step)
         (iterative_step gradient_input y step_size target mask_rep i) x_in)"

fun iterative_loop ::
  "nat \<Rightarrow> grad_oracle \<Rightarrow> real list list \<Rightarrow> int \<Rightarrow> real \<Rightarrow> bool option \<Rightarrow> ndarray list option \<Rightarrow> nat
     \<Rightarrow> ndarray list \<Rightarrow> error + ndarray list" where
  "iterative_loop n_channel gradient_input y n_step step_size target mask_arg i [] = Inr []"
| "iterative_loop n_channel gradient_input y n_step step_size target mask_arg i (x_in # xs) =
     bind_e (iterative_sample n_channel gradient_input y n_step step_size target mask_arg i x_in)
       (\<lambda>x_cur.
     bind_e (iterative_loop n_channel gradient_input y n_step step_size target mask_arg (Suc i) xs)
       (\<lambda>rest. Inr (x_cur # rest)))"

definition iterative ::
  "nat \<Rightarrow> grad_oracle \<Rightarrow> ndarray list \<Rightarrow> real list list \<Rightarrow> int \<Rightarrow> real \<Rightarrow> bool option
     \<Rightarrow> ndarray list option \<Rightarrow> error + ndarray list" where
  "iterative n_channel gradient_input x y n_step step_size target mask_arg =
     iterative_loop n_channel gradient_input y n_step step_size target mask_arg 0 x"

subsection \<open>Test inputs\<close>

text \<open>
  Concrete inputs of the properties below. \<open>demo_predict\<close> is a classifier on arrays of
  one-entry samples: the entry \<open>r\<close> is scored \<open>[1 - r, r]\<close> over two classes. \<open>demo_x\<close> is a
  sample of one pixel and three channels. \<open>const_grad\<close>, \<open>zero_grad\<close>, \<open>edge_grad\<close> and
  \<open>sat_grad\<close> are gradient oracles: a constant gradient, the zero gradient, a gradient
  on the second of two pixels only, and a gradient that vanishes once the first entry
  of the sample has reached 1.
\<close>

definition demo_predict :: "ndarray \<Rightarrow> real list list" where
  "demo_predict a = map (\<lambda>v. case v of Fin r \<Rightarrow> [1 - r, r] | _ \<Rightarrow> [1, 0]) (data a)"

definition demo_x :: ndarray where
  "demo_x = \<lparr>shape = [1, 1, 3], data = [Fin (1 / 2), Fin (1 / 2), Fin (1 / 2)]\<rparr>"

definition demo_x2 :: ndarray where
  "demo_x2 = \<lparr>shape = [1, 2, 3],
     data = [Fin (1 / 2), Fin (1 / 2), Fin (1 / 2), Fin (1 / 2), Fin (1 / 2), Fin (1 / 2)]\<rparr>"

definition demo_x3 :: ndarray where
  "demo_x3 = \<lparr>shape = [1, 1, 3], data = [Fin (9 / 10), Fin (1 / 2), Fin (1 / 2)]\<rparr>"

definition const_grad :: grad_oracle where
  "const_grad x y_i = \<lparr>shape = [1, 1, 3], data = [Fin 1, Fin 0, Fin 0]\<rparr>"

definition zero_grad :: grad_oracle where
  "zero_grad x y_i = \<lparr>shape = shape x, data = map (\<lambda>v. Fin 0) (data x)\<rparr>"

definition edge_grad :: grad_oracle where
  "edge_grad x y_i = \<lparr>shape = [1, 2, 3], data = [Fin 0, Fin 0, Fin 0, Fin 1, Fin 0, Fin 0]\<rparr>"

definition sat_grad :: grad_oracle where
  "sat_grad x y_i =
     (if data x ! 0 = Fin 1 then \<lparr>shape = [1, 1, 3], data = [Fin 0, Fin 0, Fin 0]\<rparr>
      else \<lparr>shape = [1, 1, 3], data = [Fin (- 1), Fin 0, Fin 0]\<rparr>)"

definition half_mask :: ndarray where
  "half_mask = \<lparr>shape = [1, 2], data = [Fin 1, Fin 0]\<rparr>"

section \<open>Properties\<close>

subsection \<open>\<open>check_mask\<close>\<close>

text \<open>
  C6. For every 2-D mask \<open>m\<close>, \<open>check_mask\<close> accepts \<open>m\<close> exactly when the mask has a
  positive area and its area ratio \<open>sum(m) / (height * width)\<close> is strictly greater
  than 0.1 and strictly less than 0.9; a ratio equal to 0.1 or to 0.9 is rejected.
\<close>

theorem check_mask_iff_strict_ratio:
  "(check_mask m \<longleftrightarrow>
      shape0 m * shape1 m \<noteq> 0 \<and>
      1 / 10 < real (np_sum2 m) / real (shape0 m * shape1 m) \<and>
      real (np_sum2 m) / real (shape0 m * shape1 m) < 9 / 10) \<and>
   (shape0 m * shape1 m \<noteq> 0 \<and>
      (real (np_sum2 m) / real (shape0 m * shape1 m) = 1 / 10 \<or>
       real (np_sum2 m) / real (shape0 m * shape1 m) = 9 / 10)
    \<longrightarrow> \<not> check_mask m)"
  by (auto simp: check_mask_def area_ratio_def MASK_THRES_MIN_def MASK_THRES_MAX_def)

theorem check_mask_iff_strict_ratio_witness:
  "check_mask [[1, 0, 0, 1, 0]] \<and> \<not> check_mask [[1, 0, 0, 0, 0], [0, 0, 0, 0, 0]]
   \<and> \<not> check_mask [[1, 1, 1, 1, 1], [1, 1, 1, 1, 0]]"
  using check_mask_iff_strict_ratio [of "[[1, 0, 0, 1, 0]]"]
    check_mask_iff_strict_ratio [of "[[1, 0, 0, 0, 0], [0, 0, 0, 0, 0]]"]
    check_mask_iff_strict_ratio [of "[[1, 1, 1, 1, 1], [1, 1, 1, 1, 0]]"]
  by (simp add: shape0_def shape1_def np_sum2_def)

subsection \<open>Helper facts on errors and lists\<close>

lemma bind_e_simps [simp]: "bind_e (Inl e) f = Inl e" "bind_e (Inr v) f = f v"
  by (simp_all add: bind_e_def)

lemma bind_e_Inr_iff: "bind_e m f = Inr r \<longleftrightarrow> (\<exists>v. m = Inr v \<and> f v = Inr r)"
  by (cases m) simp_all

lemma map_e_total:
  "\<forall>x \<in> set xs. \<exists>v. f x = Inr v \<Longrightarrow>
   \<exists>vs. map_e f xs = Inr vs \<and> length vs = length xs \<and> (\<forall>j < length xs. f (xs ! j) = Inr (vs ! j))"
proof (induction xs)
  case Nil
  then show ?case by simp
next
  case (Cons x xs)
  then obtain v where v: "f x = Inr v" by auto
  from Cons obtain vs where vs: "map_e f xs = Inr vs" "length vs = length xs"
    "\<forall>j < length xs. f (xs ! j) = Inr (vs ! j)" by auto
  have "\<forall>j < length (x # xs). f ((x # xs) ! j) = Inr ((v # vs) ! j)"
    using v vs(3) by (auto simp: nth_Cons split: nat.splits)
  then show ?case using v vs by simp
qed

lemma np_count_card: "np_count (map2 P a b) = card {i. i < min (length a) (length b) \<and> P (a ! i) (b ! i)}"
proof -
  have "np_count (map2 P a b) = card {i. i < length (map2 P a b) \<and> (map2 P a b) ! i}"
    unfolding np_count_def by (rule length_filter_conv_card)
  also have "{i. i < length (map2 P a b) \<and> (map2 P a b) ! i} = {i. i < min (length a) (length b) \<and> P (a ! i) (b ! i)}"
    by auto
  finally show ?thesis .
qed

lemma suc_rate_of_eq:
  "length y_p = length y_t \<Longrightarrow>
   suc_rate_of target y_t y_p n =
     Inr (np_div (Fin (real (card {i. i < length y_t \<and>
            (if truthy target then y_t ! i = y_p ! i else y_t ! i \<noteq> y_p ! i)})))
          (Fin (real n)))"
  by (cases "truthy target")
     (simp_all add: suc_rate_of_def np_eq_def np_ne_def np_count_card del: np_div.simps)

lemma length_slices: "length (slices a) = (case shape a of [] \<Rightarrow> 0 | n # _ \<Rightarrow> n)"
  by (simp add: slices_def split: list.splits)

lemma np_delete_nil: "np_delete xs [] = Inr xs"
  by (simp add: np_delete_def map_nth)

lemma np_where_all_False: "np_where (replicate n False) = []"
  by (simp add: np_where_def filter_empty_conv)

lemma np_ne_self: "np_ne a a = Inr (replicate (length a) False)"
  by (induction a) (auto simp: np_ne_def)

lemma sorted_np_unique: "sorted (sort (np_unique xs)) \<and> distinct (sort (np_unique xs))"
  by (simp add: np_unique_def)

subsection \<open>\<open>filter_samples\<close>\<close>

text \<open>
  C9. When the predicted class equals the true class for every sample and no \<open>y_target\<close>
  is given, \<open>filter_samples\<close> returns the samples and the labels unchanged with an empty
  list of removed indices; whenever \<open>filter_samples\<close> returns, the list of removed
  indices is sorted and has no duplicate.
\<close>

theorem filter_samples_correct:
  "(to_class (predict x) = Inr cs \<and> to_class y = Inr cs
      \<longrightarrow> filter_samples predict x y None = Inr (x, y, [])) \<and>
   (filter_samples predict x y y_target = Inr (x', y', d) \<longrightarrow> sorted d \<and> distinct d)"
proof (intro conjI impI)
  assume h: "to_class (predict x) = Inr cs \<and> to_class y = Inr cs"
  then show "filter_samples predict x y None = Inr (x, y, [])"
    by (simp add: filter_samples_def np_ne_self np_where_all_False np_unique_def np_delete_nil)
next
  assume "filter_samples predict x y y_target = Inr (x', y', d)"
  then obtain d0 where "d = sort (np_unique d0)"
    unfolding filter_samples_def bind_e_Inr_iff Let_def by auto
  then show "sorted d" "distinct d" using sorted_np_unique by simp_all
qed

theorem filter_samples_correct_witness:
  "filter_samples (map (\<lambda>s::nat. [1 - real s, real s])) [0, 1, 1] [[1, 0], [0, 1], [0, 1]] None
     = Inr ([0, 1, 1], [[1, 0], [0, 1], [0, 1]], []) \<and>
   filter_samples (map (\<lambda>s::nat. [1 - real s, real s])) [0, 1, 1, 0]
       [[1, 0], [1, 0], [0, 1], [1, 0]] (Some [[1, 0], [1, 0], [0, 1], [0, 1]])
     = Inr ([0], [[1, 0]], [0, 1, 2]) \<and> sorted [0, 1, 2 :: nat] \<and> distinct [0, 1, 2 :: nat]"
proof -
  let ?p = "map (\<lambda>s::nat. [1 - real s, real s])"
  have a: "to_class (?p [0, 1, 1]) = Inr [0, 1, 1]"
    by (simp add: to_class_def np_argmax_def)
  have b: "to_class [[1, 0], [0, 1], [0, 1]] = Inr [0, 1, 1]"
    by (simp add: to_class_def np_argmax_def)
  have c: "filter_samples (map (\<lambda>s::nat. [1 - real s, real s])) [0, 1, 1, 0]
       [[1, 0], [1, 0], [0, 1], [1, 0]] (Some [[1, 0], [1, 0], [0, 1], [0, 1]])
     = Inr ([0], [[1, 0]], [0, 1, 2])"

proof -
  have 1: "to_class (map (\<lambda>s::nat. [1 - real s, real s]) [0, 1, 1, 0]) = Inr [0, 1, 1, 0]"
    by (simp add: to_class_def np_argmax_def)
  have 2: "to_class [[1, 0], [1, 0], [0, 1], [1, 0]] = Inr [0, 0, 1, 0]"
    by (simp add: to_class_def np_argmax_def)
  have 3: "to_class [[1, 0], [1, 0], [0, 1], [0, 1]] = Inr [0, 0, 1, 1]"
    by (simp add: to_class_def np_argmax_def)
  have 4: "np_ne [0, 1, 1, 0] [0, 0, 1, 0] = Inr [False, True, False, False]"
    by (simp add: np_ne_def)
  have 5: "np_eq [0, 1, 1, 0] [0, 0, 1, 1] = Inr [True, False, True, False]"
    by (simp add: np_eq_def)
  have 6: "np_where [False, True, False, False] = [1]" "np_where [True, False, True, False] = [0, 2]"
    by (simp_all add: np_where_def upt_rec)
  have 7: "sort (np_unique [1, 0, 2]) = [0, 1, 2]"
    by (simp add: np_unique_def)
  have 8: "np_delete [0::nat, 1, 1, 0] [0, 1, 2] = Inr [0]"
    "np_delete [[1, 0], [1, 0], [0, 1], [1, 0::real]] [0, 1, 2] = Inr [[1, 0]]"
    by (simp_all add: np_delete_def upt_rec)
  show ?thesis
    by (simp only: filter_samples_def 1 2 3 4 5 6 7 8 bind_e_simps Let_def option.case append.simps)
qed

  have d: "filter_samples ?p [0, 1, 1] [[1, 0], [0, 1], [0, 1]] None
     = Inr ([0, 1, 1], [[1, 0], [0, 1], [0, 1]], [])"
    using filter_samples_correct [of ?p "[0, 1, 1]" "[0, 1, 1]" "[[1, 0], [0, 1], [0, 1]]"] a b
    by blast
  have e: "sorted [0, 1, 2 :: nat] \<and> distinct [0, 1, 2 :: nat]"
    using filter_samples_correct [where predict = ?p and x = "[0, 1, 1, 0]"
      and y = "[[1, 0], [1, 0], [0, 1], [1, 0]]" and y_target = "Some [[1, 0], [1, 0], [0, 1], [0, 1]]"
      and x' = "[0]" and y' = "[[1, 0]]" and d = "[0, 1, 2]"] c
    by blast
  from c d e show ?thesis by blast
qed

subsection \<open>\<open>eval_adv\<close>\<close>

text \<open>
  C7. When the adversarial batch has a rank that is neither 4 nor 5 (and the labels
  are well formed), \<open>eval_adv\<close> reports the usage error by printing the line
  \<^verbatim>\<open>Incorrect format for x_adv.\<close> and returns \<open>None\<close>: no success rate, partial or not,
  is returned.
\<close>

theorem eval_adv_bad_rank:
  "to_class y = Inr y_t \<Longrightarrow> ndim x_adv \<noteq> 4 \<Longrightarrow> ndim x_adv \<noteq> 5 \<Longrightarrow>
   eval_adv predict x_adv y target = Inr ([''Incorrect format for x_adv.''], PyNone)"
  by (simp add: eval_adv_def)

theorem eval_adv_bad_rank_witness:
  "eval_adv demo_predict \<lparr>shape = [2, 1, 1], data = [Fin 0, Fin 1]\<rparr> [[1, 0], [1, 0]] (Some True)
     = Inr ([''Incorrect format for x_adv.''], PyNone)"
proof -
  have y: "to_class [[1, 0], [1, 0]] = Inr [0, 0]"
    by (simp add: to_class_def np_argmax_def)
  have r: "ndim \<lparr>shape = [2, 1, 1], data = [Fin 0, Fin 1]\<rparr> \<noteq> 4"
    "ndim \<lparr>shape = [2, 1, 1], data = [Fin 0, Fin 1]\<rparr> \<noteq> 5"
    by (simp_all add: ndim_def)
  show ?thesis
    by (rule eval_adv_bad_rank [OF y r])
qed

text \<open>
  C10. The result of \<open>eval_adv\<close> depends on the rank. On a 4-D batch it is one scalar:
  the number of samples whose predicted class matches the label (targeted) or differs
  from it (untargeted), divided by the number of labels. On a 5-D batch of \<open>k\<close> slices it
  is a list of exactly \<open>k\<close> such rates, the \<open>j\<close>-th computed from the \<open>j\<close>-th slice.
\<close>

theorem eval_adv_return_by_rank:
  "(ndim x_adv = 4 \<and> to_class y = Inr y_t \<and> to_class (predict x_adv) = Inr y_p \<and>
    length y_p = length y_t \<longrightarrow>
      eval_adv predict x_adv y target =
        Inr ([], Scalar (np_div (Fin (real (card {i. i < length y_t \<and>
               (if truthy target then y_t ! i = y_p ! i else y_t ! i \<noteq> y_p ! i)})))
             (Fin (real (length y)))))) \<and>
   (ndim x_adv = 5 \<and> to_class y = Inr y_t \<and>
    (\<forall>x \<in> set (slices x_adv). \<exists>y_p. to_class (predict x) = Inr y_p \<and> length y_p = length y_t) \<longrightarrow>
      (\<exists>rs. eval_adv predict x_adv y target = Inr ([], RateList rs) \<and>
            length rs = hd (shape x_adv) \<and>
            (\<forall>j < length rs. \<exists>y_p. to_class (predict (slices x_adv ! j)) = Inr y_p \<and>
               rs ! j = np_div (Fin (real (card {i. i < length y_t \<and>
                   (if truthy target then y_t ! i = y_p ! i else y_t ! i \<noteq> y_p ! i)})))
                 (Fin (real (length y))))))"
proof (intro conjI impI)
  assume "ndim x_adv = 4 \<and> to_class y = Inr y_t \<and> to_class (predict x_adv) = Inr y_p \<and>
    length y_p = length y_t"
  then show "eval_adv predict x_adv y target =
        Inr ([], Scalar (np_div (Fin (real (card {i. i < length y_t \<and>
               (if truthy target then y_t ! i = y_p ! i else y_t ! i \<noteq> y_p ! i)})))
             (Fin (real (length y)))))"
    by (simp add: eval_adv_def suc_rate_of_eq del: np_div.simps)
next
  let ?rate = "\<lambda>y_p. np_div (Fin (real (card {i. i < length y_t \<and>
                   (if truthy target then y_t ! i = y_p ! i else y_t ! i \<noteq> y_p ! i)})))
                 (Fin (real (length y)))"
  let ?f = "\<lambda>x. bind_e (to_class (predict x)) (\<lambda>y_p. suc_rate_of target y_t y_p (length y))"
  assume h: "ndim x_adv = 5 \<and> to_class y = Inr y_t \<and>
    (\<forall>x \<in> set (slices x_adv). \<exists>y_p. to_class (predict x) = Inr y_p \<and> length y_p = length y_t)"
  then have ok: "\<forall>x \<in> set (slices x_adv). \<exists>y_p. to_class (predict x) = Inr y_p \<and> ?f x = Inr (?rate y_p)"
  proof (intro ballI)
    fix x assume "x \<in> set (slices x_adv)"
    with h obtain y_p where y_p: "to_class (predict x) = Inr y_p" "length y_p = length y_t"
      by blast
    then have "?f x = Inr (?rate y_p)"
      using suc_rate_of_eq [of y_p y_t target "length y"] by (simp del: np_div.simps)
    with y_p show "\<exists>y_p. to_class (predict x) = Inr y_p \<and> ?f x = Inr (?rate y_p)" by blast
  qed
  then have "\<forall>x \<in> set (slices x_adv). \<exists>v. ?f x = Inr v" by blast
  from map_e_total [OF this] obtain rs where rs: "map_e ?f (slices x_adv) = Inr rs"
    "length rs = length (slices x_adv)"
    "\<forall>j < length (slices x_adv). ?f (slices x_adv ! j) = Inr (rs ! j)" by blast
  have len: "length (slices x_adv) = hd (shape x_adv)"
    using h by (cases "shape x_adv") (simp_all add: length_slices ndim_def)
  have each: "\<forall>j < length rs. \<exists>y_p. to_class (predict (slices x_adv ! j)) = Inr y_p \<and> rs ! j = ?rate y_p"
  proof (intro allI impI)
    fix j assume j: "j < length rs"
    then have "slices x_adv ! j \<in> set (slices x_adv)" using rs(2) by simp
    with ok obtain y_p where "to_class (predict (slices x_adv ! j)) = Inr y_p"
      "?f (slices x_adv ! j) = Inr (?rate y_p)" by blast
    moreover have "?f (slices x_adv ! j) = Inr (rs ! j)" using rs(3) j rs(2) by simp
    ultimately show "\<exists>y_p. to_class (predict (slices x_adv ! j)) = Inr y_p \<and> rs ! j = ?rate y_p"
      by auto
  qed
  have "eval_adv predict x_adv y target = Inr ([], RateList rs)"
    using h rs(1) by (simp add: eval_adv_def)
  with len rs(2) each
  show "\<exists>rs. eval_adv predict x_adv y target = Inr ([], RateList rs) \<and>
            length rs = hd (shape x_adv) \<and>
            (\<forall>j < length rs. \<exists>y_p. to_class (predict (slices x_adv ! j)) = Inr y_p \<and>
               rs ! j = ?rate y_p)"
    by auto
qed

theorem eval_adv_return_by_rank_witness:
  "eval_adv demo_predict \<lparr>shape = [2, 1, 1, 1], data = [Fin 0, Fin 1]\<rparr> [[1, 0], [1, 0]] (Some True)
     = Inr ([], Scalar (np_div (Fin (real (card {i. i < length [0, 0 :: nat] \<and>
               (if truthy (Some True) then [0, 0 :: nat] ! i = [0, 1] ! i else [0, 0 :: nat] ! i \<noteq> [0, 1] ! i)})))
             (Fin (real (length [[1, 0], [1, 0 :: real]]))))) \<and>
   (\<exists>rs. eval_adv demo_predict \<lparr>shape = [2, 2, 1, 1, 1], data = [Fin 0, Fin 1, Fin 0, Fin 0]\<rparr>
            [[1, 0], [1, 0]] (Some False) = Inr ([], RateList rs) \<and> length rs = 2)"
proof -
  let ?y = "[[1, 0], [1, 0 :: real]]"
  let ?x4 = "\<lparr>shape = [2, 1, 1, 1], data = [Fin 0, Fin 1]\<rparr>"
  let ?x5 = "\<lparr>shape = [2, 2, 1, 1, 1], data = [Fin 0, Fin 1, Fin 0, Fin 0]\<rparr>"
  have y: "to_class ?y = Inr [0, 0]"
    by (simp add: to_class_def np_argmax_def)
  have p4: "to_class (demo_predict ?x4) = Inr [0, 1]"
    by (simp add: to_class_def np_argmax_def demo_predict_def)
  have sl: "slices ?x5 = [\<lparr>shape = [2, 1, 1, 1], data = [Fin 0, Fin 1]\<rparr>,
                          \<lparr>shape = [2, 1, 1, 1], data = [Fin 0, Fin 0]\<rparr>]"
    by (simp add: slices_def upt_rec)
  have p5: "\<forall>x \<in> set (slices ?x5). \<exists>y_p. to_class (demo_predict x) = Inr y_p \<and> length y_p = length [0, 0 :: nat]"
    unfolding sl by (simp add: to_class_def np_argmax_def demo_predict_def)
  have a: "ndim ?x4 = 4" and b: "ndim ?x5 = 5" and l: "length [0, 1 :: nat] = length [0, 0 :: nat]"
    by (simp_all add: ndim_def)
  have r4: "eval_adv demo_predict ?x4 ?y (Some True)
     = Inr ([], Scalar (np_div (Fin (real (card {i. i < length [0, 0 :: nat] \<and>
               (if truthy (Some True) then [0, 0 :: nat] ! i = [0, 1] ! i else [0, 0 :: nat] ! i \<noteq> [0, 1] ! i)})))
             (Fin (real (length ?y)))))"
    using eval_adv_return_by_rank [of ?x4 ?y "[0, 0]" demo_predict "[0, 1]" "Some True"] y p4 a l
    by blast
  have "\<exists>rs. eval_adv demo_predict ?x5 ?y (Some False) = Inr ([], RateList rs) \<and>
           length rs = hd (shape ?x5)"
    using eval_adv_return_by_rank [of ?x5 ?y "[0, 0]" demo_predict "[0, 1]" "Some False"] y p5 b
    by blast
  then have r5: "\<exists>rs. eval_adv demo_predict ?x5 ?y (Some False) = Inr ([], RateList rs) \<and> length rs = 2"
    by simp
  from r4 r5 show ?thesis by blast
qed

subsection \<open>Facts on numpy scalars and arrays\<close>

text \<open>A finite norm comes from finite entries only, and a zero norm from zeros only.\<close>

lemma np_add_Fin_D: "np_add a b = Fin s \<Longrightarrow> is_fin a \<and> is_fin b"
  by (cases a; cases b) simp_all

lemma np_sqrt_Fin_D: "np_sqrt u = Fin n \<Longrightarrow> is_fin u"
  by (cases u) simp_all

lemma sum_squares_Fin_D:
  "foldr np_add (map (\<lambda>v. np_mul v v) vs) (Fin 0) = Fin s \<Longrightarrow> list_all is_fin vs"
proof (induction vs arbitrary: s)
  case Nil
  then show ?case by simp
next
  case (Cons v vs)
  from Cons.prems have "np_add (np_mul v v) (foldr np_add (map (\<lambda>v. np_mul v v) vs) (Fin 0)) = Fin s"
    by simp
  from np_add_Fin_D [OF this]
  have a: "is_fin (np_mul v v)" and b: "is_fin (foldr np_add (map (\<lambda>v. np_mul v v) vs) (Fin 0))"
    by simp_all
  from a have "is_fin v" by (cases v) simp_all
  moreover from b obtain t where "foldr np_add (map (\<lambda>v. np_mul v v) vs) (Fin 0) = Fin t"
    by (cases "foldr np_add (map (\<lambda>v. np_mul v v) vs) (Fin 0)") simp_all
  then have "list_all is_fin vs" by (rule Cons.IH)
  ultimately show ?case by simp
qed

lemma np_norm_Fin_D: "np_norm g = Fin n \<Longrightarrow> list_all is_fin (data g)"
proof -
  assume "np_norm g = Fin n"
  then have "is_fin (foldr np_add (map (\<lambda>v. np_mul v v) (data g)) (Fin 0))"
    unfolding np_norm_def by (rule np_sqrt_Fin_D)
  then obtain s where "foldr np_add (map (\<lambda>v. np_mul v v) (data g)) (Fin 0) = Fin s"
    by (cases "foldr np_add (map (\<lambda>v. np_mul v v) (data g)) (Fin 0)") simp_all
  then show ?thesis by (rule sum_squares_Fin_D)
qed

lemma sum_squares_zero_D:
  "foldr np_add (map (\<lambda>v. np_mul v v) vs) (Fin 0) = Fin s \<Longrightarrow>
   0 \<le> s \<and> (s = 0 \<longrightarrow> list_all (\<lambda>v. v = Fin 0) vs)"
proof (induction vs arbitrary: s)
  case Nil
  then show ?case by simp
next
  case (Cons v vs)
  from Cons.prems have e: "np_add (np_mul v v) (foldr np_add (map (\<lambda>v. np_mul v v) vs) (Fin 0)) = Fin s"
    by simp
  from np_add_Fin_D [OF e] obtain a t where v: "v = Fin a"
    and t: "foldr np_add (map (\<lambda>v. np_mul v v) vs) (Fin 0) = Fin t"
    by (cases v; cases "foldr np_add (map (\<lambda>v. np_mul v v) vs) (Fin 0)") simp_all
  from e v t have s: "s = a * a + t" by simp
  from Cons.IH [OF t] have t0: "0 \<le> t" and tz: "t = 0 \<longrightarrow> list_all (\<lambda>v. v = Fin 0) vs"
    by simp_all
  have "0 \<le> a * a" by simp
  with s t0 have "0 \<le> s" by linarith
  moreover have "s = 0 \<longrightarrow> list_all (\<lambda>v. v = Fin 0) (v # vs)"
  proof
    assume "s = 0"
    with s t0 \<open>0 \<le> a * a\<close> have "a * a = 0" "t = 0" by linarith+
    with tz v show "list_all (\<lambda>v. v = Fin 0) (v # vs)" by simp
  qed
  ultimately show ?case by blast
qed

lemma np_norm_zero_D: "np_norm g = Fin 0 \<Longrightarrow> list_all (\<lambda>v. v = Fin 0) (data g)"
proof -
  assume n: "np_norm g = Fin 0"
  then have "is_fin (foldr np_add (map (\<lambda>v. np_mul v v) (data g)) (Fin 0))"
    unfolding np_norm_def by (rule np_sqrt_Fin_D)
  then obtain s where s: "foldr np_add (map (\<lambda>v. np_mul v v) (data g)) (Fin 0) = Fin s"
    by (cases "foldr np_add (map (\<lambda>v. np_mul v v) (data g)) (Fin 0)") simp_all
  from sum_squares_zero_D [OF s] have "0 \<le> s" and z: "s = 0 \<longrightarrow> list_all (\<lambda>v. v = Fin 0) (data g)"
    by simp_all
  from n s \<open>0 \<le> s\<close> have "s = 0" by (simp add: np_norm_def split: if_splits)
  with z show ?thesis by simp
qed

lemma normalize_grad_zero_norm:
  "np_norm g = Fin 0 \<Longrightarrow> data (normalize_grad g) = replicate (length (data g)) NaN"
proof -
  assume n: "np_norm g = Fin 0"
  from np_norm_zero_D [OF n] have "\<forall>v \<in> set (data g). np_div v (Fin 0) = NaN"
    by (auto simp: list_all_iff)
  then have "map (\<lambda>v. np_div v (Fin 0)) (data g) = replicate (length (data g)) NaN"
    by (simp add: map_replicate_const [symmetric] del: np_div.simps cong: map_cong)
  with n show ?thesis by (simp add: normalize_grad_def del: np_div.simps)
qed

lemma np_add_NaN: "np_add v NaN = NaN"
  by (cases v) simp_all

lemma np_mul_NaN: "np_mul c NaN = NaN"
  by (cases c) simp_all

lemma np_mul_zero_fin: "is_fin (np_mul v (Fin 0)) \<Longrightarrow> np_mul v (Fin 0) = Fin 0"
  by (cases v) simp_all

lemma in_unit_clip: "in_unit v \<Longrightarrow> np_clip01 v = v"
  by (cases v) simp_all

lemma np_clip01_range: "in_unit (np_clip01 v) \<or> np_clip01 v = NaN"
  by (cases v) simp_all

lemma ew_length:
  "ew f a b = Inr c \<Longrightarrow> length (data c) = min (length (data a)) (length (data b))"
  by (auto simp: ew_def split: if_splits)

lemma length_scaled_normalized:
  "length (data (scale c (normalize_grad g))) = length (data g)"
  by (simp add: scale_def normalize_grad_def)

lemma length_concat_replicate: "length (concat (map (replicate c) xs)) = c * length xs"
  by (induction xs) simp_all

lemma concat_replicate_nth:
  "k < c * length xs \<Longrightarrow> concat (map (replicate c) xs) ! k = xs ! (k div c)"
proof (induction xs arbitrary: k)
  case Nil
  then show ?case by simp
next
  case (Cons x xs)
  from Cons.prems have c: "0 < c" by (cases c) simp_all
  show ?case
  proof (cases "k < c")
    case True
    then show ?thesis by (simp add: nth_append)
  next
    case False
    with Cons.prems have "k - c < c * length xs" by simp
    from Cons.IH [OF this] False c show ?thesis
      by (simp add: nth_append le_div_geq)
  qed
qed

text \<open>The loops, item by item.\<close>

lemma map_e_const: "\<forall>a \<in> set xs. f a = Inr c \<Longrightarrow> map_e f xs = Inr (replicate (length xs) c)"
  by (induction xs) simp_all

lemma map_e_nth:
  "map_e f xs = Inr ys \<Longrightarrow>
   length ys = length xs \<and> (\<forall>j < length xs. f (xs ! j) = Inr (ys ! j))"
proof (induction xs arbitrary: ys)
  case Nil
  then show ?case by simp
next
  case (Cons x xs)
  from Cons.prems obtain v vs where v: "f x = Inr v" and vs: "map_e f xs = Inr vs"
    and ys: "ys = v # vs"
    by (auto simp: bind_e_Inr_iff)
  from Cons.IH [OF vs] v ys show ?case
    by (auto simp: nth_Cons split: nat.splits)
qed

lemma fg_loop_nth:
  "fg_loop n_channel gi y mag_list target mask_arg i0 xs = Inr rows \<Longrightarrow>
   length rows = length xs \<and>
   (\<forall>k < length xs. fg_sample n_channel gi y mag_list target mask_arg (i0 + k) (xs ! k)
      = Inr (rows ! k))"
proof (induction xs arbitrary: i0 rows)
  case Nil
  then show ?case by simp
next
  case (Cons x xs)
  from Cons.prems obtain row rest where
    row: "fg_sample n_channel gi y mag_list target mask_arg i0 x = Inr row"
    and rest: "fg_loop n_channel gi y mag_list target mask_arg (Suc i0) xs = Inr rest"
    and rows: "rows = row # rest"
    by (auto simp: bind_e_Inr_iff)
  from Cons.IH [OF rest] row rows show ?case
    by (auto simp: nth_Cons split: nat.splits)
qed

subsection \<open>The sign of the gradient\<close>

lemmas attack_defs = iterative_def iterative_sample_def iterative_mask_rep_def iterative_step_def
  iterative_masked_grad_def iterative_signed_grad_def fg_def fg_sample_def fg_masked_grad_def
  fg_signed_grad_def py_index_def mask_rep_of_def ew_def scale_def normalize_grad_def np_norm_def
  clip01_def

text \<open>
  The sign convention of \<open>fg\<close>: the gradient of the targeted mode is \<open>-1\<close> times the
  gradient of the untargeted mode.
\<close>

lemma fg_signed_grad_targeted:
  "fg_signed_grad gradient_input x_in y_i (Some True)
     = scale (Fin (- 1)) (fg_signed_grad gradient_input x_in y_i (Some False))"
  by (simp add: fg_signed_grad_def)

text \<open>In \<open>iterative\<close> the two modes use one and the same gradient.\<close>

lemma iterative_signed_grad_modes_agree:
  "iterative_signed_grad gradient_input x_cur y_i (Some False)
     = iterative_signed_grad gradient_input x_cur y_i (Some True)"
  by (simp add: iterative_signed_grad_def)

text \<open>
  C1. The claim is that in \<open>fg\<close> and in \<open>iterative\<close> the gradient of the targeted mode is
  the negation of the gradient of the untargeted mode. It holds in \<open>fg\<close>
  (\<open>fg_signed_grad_targeted\<close>). In \<open>iterative\<close> the test is \<^verbatim>\<open>target is not None\<close>, so
  \<open>target = False\<close> negates the gradient as \<open>target = True\<close> does: on the sample
  \<open>demo_x\<close> with the gradient \<open>(1, 0, 0)\<close> both modes use \<open>(-1, 0, 0)\<close> and return the
  same adversarial sample, the first entry moved down from 1/2 to 1/4, while \<open>fg\<close>
  moves it up to 3/4 in the untargeted mode.
\<close>

theorem iterative_untargeted_gradient_negated:
  "iterative_signed_grad const_grad demo_x [1, 0] (Some False)
     = \<lparr>shape = [1, 1, 3], data = [Fin (- 1), Fin 0, Fin 0]\<rparr> \<and>
   iterative_signed_grad const_grad demo_x [1, 0] (Some True)
     = \<lparr>shape = [1, 1, 3], data = [Fin (- 1), Fin 0, Fin 0]\<rparr> \<and>
   iterative 3 const_grad [demo_x] [[1, 0]] 1 (1 / 4) (Some False) None
     = Inr [\<lparr>shape = [1, 1, 3], data = [Fin (1 / 4), Fin (1 / 2), Fin (1 / 2)]\<rparr>] \<and>
   iterative 3 const_grad [demo_x] [[1, 0]] 1 (1 / 4) (Some True) None
     = Inr [\<lparr>shape = [1, 1, 3], data = [Fin (1 / 4), Fin (1 / 2), Fin (1 / 2)]\<rparr>] \<and>
   fg 3 const_grad [demo_x] [[1, 0]] [1 / 4] (Some False) None
     = Inr [[\<lparr>shape = [1, 1, 3], data = [Fin (3 / 4), Fin (1 / 2), Fin (1 / 2)]\<rparr>]]"
  by (simp add: attack_defs demo_x_def const_grad_def upt_rec)

subsection \<open>A gradient of norm zero\<close>

lemma ew_add_zero_norm:
  assumes "np_norm g = Fin 0" "shape g = shape x" "length (data g) = length (data x)"
  shows "ew np_add x (scale c (normalize_grad g))
     = Inr \<lparr>shape = shape x, data = replicate (length (data x)) NaN\<rparr>"
proof -
  have sh: "shape (scale c (normalize_grad g)) = shape x"
    using assms(2) by (simp add: scale_def normalize_grad_def)
  have "data (scale c (normalize_grad g)) = replicate (length (data x)) NaN"
    using normalize_grad_zero_norm [OF assms(1)] assms(3) by (simp add: scale_def np_mul_NaN)
  then have "map2 np_add (data x) (data (scale c (normalize_grad g)))
     = replicate (length (data x)) NaN"
    by (simp add: list_eq_iff_nth_eq np_add_NaN)
  with sh show ?thesis by (simp add: ew_def)
qed

text \<open>
  Whatever the sample and the magnitudes: once the masked gradient has norm zero, the
  row of \<open>fg\<close> for that sample is returned, not an error, and every entry of it is
  \<open>nan\<close>; likewise the pass of \<open>iterative\<close>.
\<close>

lemma fg_sample_zero_norm:
  assumes "fg_masked_grad n_channel gi y target mask_arg i x_in = Inr g"
    and "np_norm g = Fin 0" "shape g = shape x_in" "length (data g) = length (data x_in)"
  shows "fg_sample n_channel gi y mag_list target mask_arg i x_in
     = Inr (replicate (length mag_list)
         \<lparr>shape = shape x_in, data = replicate (length (data x_in)) NaN\<rparr>)"
proof -
  have "\<forall>mag \<in> set mag_list. ew np_add x_in (scale (Fin mag) (normalize_grad g))
     = Inr \<lparr>shape = shape x_in, data = replicate (length (data x_in)) NaN\<rparr>"
    using ew_add_zero_norm [OF assms(2,3,4)] by blast
  then have "map_e (\<lambda>mag. ew np_add x_in (scale (Fin mag) (normalize_grad g))) mag_list
    = Inr (replicate (length mag_list) \<lparr>shape = shape x_in, data = replicate (length (data x_in)) NaN\<rparr>)"
    by (rule map_e_const)
  then show ?thesis using assms(1) by (simp add: fg_sample_def)
qed

lemma iterative_step_zero_norm:
  assumes "iterative_masked_grad gi y target mask_rep i x_cur = Inr g"
    and "np_norm g = Fin 0" "shape g = shape x_cur" "length (data g) = length (data x_cur)"
  shows "iterative_step gi y step_size target mask_rep i x_cur
     = Inr \<lparr>shape = shape x_cur, data = replicate (length (data x_cur)) NaN\<rparr>"
  using assms(1) ew_add_zero_norm [OF assms(2,3,4), of "Fin step_size"]
  by (simp add: iterative_step_def clip01_def)

text \<open>
  C3. The claim is that a gradient of norm zero is signalled as an error. It is not:
  with the zero gradient on \<open>demo_x\<close> the masked gradient has norm 0, and both \<open>fg\<close> and
  \<open>iterative\<close> return normally an adversarial sample whose entries are all \<open>nan\<close>.
\<close>

theorem zero_norm_gradient_returns_nan:
  "fg_masked_grad 3 zero_grad [[1, 0]] (Some True) None 0 demo_x
     = Inr \<lparr>shape = [1, 1, 3], data = [Fin 0, Fin 0, Fin 0]\<rparr> \<and>
   np_norm \<lparr>shape = [1, 1, 3], data = [Fin 0, Fin 0, Fin 0]\<rparr> = Fin 0 \<and>
   fg 3 zero_grad [demo_x] [[1, 0]] [1 / 4] (Some True) None
     = Inr [[\<lparr>shape = [1, 1, 3], data = [NaN, NaN, NaN]\<rparr>]] \<and>
   iterative 3 zero_grad [demo_x] [[1, 0]] 1 (1 / 4) (Some True) None
     = Inr [\<lparr>shape = [1, 1, 3], data = [NaN, NaN, NaN]\<rparr>]"
  by (simp add: attack_defs demo_x_def zero_grad_def upt_rec)

subsection \<open>The range of \<open>iterative\<close>\<close>

text \<open>After a pass of \<open>iterative\<close> every entry is in \<open>[0, 1]\<close> or is \<open>nan\<close>.\<close>

lemma iterative_step_range:
  "iterative_step gi y step_size target mask_rep i x_cur = Inr x' \<Longrightarrow>
   list_all (\<lambda>v. in_unit v \<or> v = NaN) (data x')"
proof -
  assume "iterative_step gi y step_size target mask_rep i x_cur = Inr x'"
  then obtain x1 where "x' = clip01 x1"
    by (auto simp: iterative_step_def bind_e_Inr_iff)
  then show ?thesis
    by (simp add: clip01_def list_all_iff np_clip01_range)
qed

text \<open>
  C4. The claim is that every value of \<open>iterative\<close>, after each step and at the end, is
  in \<open>[0, 1]\<close> for an input in \<open>[0, 1]\<close>. With the oracle \<open>sat_grad\<close> the input \<open>demo_x3\<close>
  is in \<open>[0, 1]\<close>, the sample after the first step is in \<open>[0, 1]\<close> (its first entry
  clipped to 1), the gradient there is zero, and the sample after the second step,
  which is the output, is \<open>nan\<close> in every entry: the division by the zero norm is not
  stopped and the clip lets \<open>nan\<close> through.
\<close>

theorem iterative_output_nan_after_zero_gradient:
  "list_all in_unit (data demo_x3) \<and>
   iterative 3 sat_grad [demo_x3] [[1, 0]] 1 (1 / 5) (Some False) None
     = Inr [\<lparr>shape = [1, 1, 3], data = [Fin 1, Fin (1 / 2), Fin (1 / 2)]\<rparr>] \<and>
   iterative 3 sat_grad [demo_x3] [[1, 0]] 2 (1 / 5) (Some False) None
     = Inr [\<lparr>shape = [1, 1, 3], data = [NaN, NaN, NaN]\<rparr>] \<and>
   \<not> list_all in_unit [NaN, NaN, NaN]"
  by (simp add: attack_defs demo_x3_def sat_grad_def eval_nat_numeral)

subsection \<open>Entries outside the mask\<close>

text \<open>
  Where the mask is 0 the masked gradient is 0, provided its norm is finite (an
  infinite or \<open>nan\<close> entry of the gradient times 0 is \<open>nan\<close>).
\<close>

lemma masked_entry_zero:
  assumes "mask_rep_of c m = Inr mr" "ew np_mul grad mr = Inr g" "np_norm g = Fin n"
    and "k < length (data g)" "data m ! (k div c) = Fin 0"
  shows "data g ! k = Fin 0"
proof -
  from assms(1) have mr: "data mr = concat (map (replicate c) (data m))"
    by (auto simp: mask_rep_of_def split: if_splits)
  from assms(2) have g: "data g = map2 np_mul (data grad) (data mr)"
    by (auto simp: ew_def split: if_splits)
  with assms(4) have k: "k < length (data grad)" "k < length (data mr)" by simp_all
  then have "k < c * length (data m)" by (simp add: mr length_concat_replicate)
  then have "data mr ! k = Fin 0"
    using assms(5) by (simp add: mr concat_replicate_nth)
  with g k have e: "data g ! k = np_mul (data grad ! k) (Fin 0)" by simp
  from np_norm_Fin_D [OF assms(3)] assms(4) have "is_fin (data g ! k)"
    by (simp add: list_all_length)
  with e show ?thesis by (simp add: np_mul_zero_fin)
qed

lemma frame_entry:
  assumes "ew np_add x (scale (Fin s) (normalize_grad g)) = Inr x'"
    and "np_norm g = Fin n" "n \<noteq> 0" "data g ! k = Fin 0"
    and "k < length (data x)" "k < length (data g)" "in_unit (data x ! k)"
  shows "data x' ! k = data x ! k"
proof -
  from assms(1) have "data x' = map2 np_add (data x) (map (np_mul (Fin s))
      (map (\<lambda>v. np_div v (Fin n)) (data g)))"
    using assms(2) by (auto simp: ew_def scale_def normalize_grad_def split: if_splits)
  then have "data x' ! k = np_add (data x ! k) (np_mul (Fin s) (np_div (Fin 0) (Fin n)))"
    using assms(4,5,6) by simp
  also have "\<dots> = data x ! k"
    using assms(3,7) by (cases "data x ! k") simp_all
  finally show ?thesis .
qed

text \<open>
  The frame property of \<open>fg\<close>: with a mask, every entry of the output at a position
  where the mask is 0 equals the input entry, as long as the masked gradient of the
  sample has a finite nonzero norm. The norm here is the exact root of the sum of the
  squares: a gradient so small that its squares underflow has the norm 0.0 in the
  program and falls under the lemmas on a norm of zero instead.
\<close>

lemma fg_frame:
  assumes out: "fg n_channel gi x y mag_list target (Some m) = Inr out"
    and i: "i < length x" and j: "j < length mag_list"
    and g: "fg_masked_grad n_channel gi y target (Some m) i (x ! i) = Inr g"
    and n: "np_norm g = Fin n" "n \<noteq> 0"
    and len: "length (data g) = length (data (x ! i))"
    and k: "k < length (data (x ! i))" "in_unit (data (x ! i) ! k)"
    and m0: "data (m ! i) ! (k div n_channel) = Fin 0"
  shows "data (out ! j ! i) ! k = data (x ! i) ! k"
proof -
  from g obtain y_i mr where mi: "i < length m"
    and mr: "mask_rep_of n_channel (m ! i) = Inr mr"
    and e: "ew np_mul (fg_signed_grad gi (x ! i) y_i target) mr = Inr g"
    by (auto simp: fg_masked_grad_def bind_e_Inr_iff py_index_def split: if_splits)
  from k(1) len have kg: "k < length (data g)" by simp
  have g0: "data g ! k = Fin 0"
    by (rule masked_entry_zero [OF mr e n(1) kg m0])
  from out obtain rows where rows: "fg_loop n_channel gi y mag_list target (Some m) 0 x = Inr rows"
    and o: "out = map (\<lambda>j. map (\<lambda>row. clip01 (row ! j)) rows) [0..<length mag_list]"
    by (auto simp: fg_def bind_e_Inr_iff)
  from fg_loop_nth [OF rows] i have lr: "length rows = length x"
    and row: "fg_sample n_channel gi y mag_list target (Some m) i (x ! i) = Inr (rows ! i)"
    by simp_all
  from row g have "map_e (\<lambda>mag. ew np_add (x ! i) (scale (Fin mag) (normalize_grad g))) mag_list
     = Inr (rows ! i)"
    by (simp add: fg_sample_def)
  from map_e_nth [OF this] j
  have "ew np_add (x ! i) (scale (Fin (mag_list ! j)) (normalize_grad g)) = Inr (rows ! i ! j)"
    by simp
  from frame_entry [OF this n g0 k(1) kg k(2)]
  have u: "data (rows ! i ! j) ! k = data (x ! i) ! k" .
  from \<open>ew np_add (x ! i) (scale (Fin (mag_list ! j)) (normalize_grad g)) = Inr (rows ! i ! j)\<close>
  have "length (data (rows ! i ! j)) = length (data (x ! i))"
    using len by (simp add: ew_length length_scaled_normalized)
  with k(1) have "data (clip01 (rows ! i ! j)) ! k = np_clip01 (data (rows ! i ! j) ! k)"
    by (simp add: clip01_def)
  with u k(2) have "data (clip01 (rows ! i ! j)) ! k = data (x ! i) ! k"
    by (simp add: in_unit_clip)
  moreover have "out ! j ! i = clip01 (rows ! i ! j)"
    using o i j lr by simp
  ultimately show ?thesis by simp
qed

text \<open>
  C5. The claim is that with a mask every output entry at a position where the mask is
  0 equals the input entry. On the two-pixel sample \<open>demo_x2\<close> with the mask \<open>(1, 0)\<close> and
  a gradient that is zero on the first pixel, the masked gradient is zero, its norm is
  0, and every entry of the output of \<open>fg\<close> and of \<open>iterative\<close> is \<open>nan\<close>, also the three
  entries of the second pixel, where the mask is 0 and the input is 1/2.
\<close>

theorem masked_out_pixel_changed_on_zero_norm:
  "data half_mask ! 1 = Fin 0 \<and>
   data demo_x2 ! 3 = Fin (1 / 2) \<and>
   fg 3 edge_grad [demo_x2] [[1, 0]] [1 / 4] (Some True) (Some [half_mask])
     = Inr [[\<lparr>shape = [1, 2, 3], data = [NaN, NaN, NaN, NaN, NaN, NaN]\<rparr>]] \<and>
   iterative 3 edge_grad [demo_x2] [[1, 0]] 1 (1 / 4) (Some True) (Some [half_mask])
     = Inr [\<lparr>shape = [1, 2, 3], data = [NaN, NaN, NaN, NaN, NaN, NaN]\<rparr>]"
  by (simp add: attack_defs demo_x2_def edge_grad_def half_mask_def upt_rec eval_nat_numeral)

subsection \<open>\<open>find_sign_area\<close>\<close>

lemma fold_max_zero: "list_all (\<lambda>l. l = 0) xs \<Longrightarrow> fold max xs (0::nat) = 0"
  by (induction xs) simp_all

text \<open>
  Whenever the labelled image is not empty and holds the background label only, the
  mask returned is 1 everywhere.
\<close>

lemma find_sign_area_no_component:
  assumes "fst (label (binary_fill_holes (canny img sigma))) = lab"
    and "concat lab \<noteq> []" "list_all (\<lambda>l. l = 0) (concat lab)"
  shows "find_sign_area canny binary_fill_holes label img sigma = Inr (map (map (\<lambda>l. 1)) lab)"
proof -
  have b: "np_bincount (concat lab) = [count_list (concat lab) 0]"
    using assms(2,3) by (simp add: np_bincount_def fold_max_zero)
  have "\<forall>r \<in> set lab. \<forall>l \<in> set r. l = 0"
    using assms(3) by (auto simp: list_all_iff)
  then have "map (map (\<lambda>l. [1::nat] ! l)) lab = map (map (\<lambda>l. 1)) lab"
  proof (intro map_cong refl)
    fix r l assume "r \<in> set lab" "l \<in> set r"
    with \<open>\<forall>r \<in> set lab. \<forall>l \<in> set r. l = 0\<close> have "l = 0" by blast
    then show "[1::nat] ! l = 1" by simp
  qed
  then show ?thesis
    using assms(1) b by (simp add: find_sign_area_def np_argmax_def Let_def)
qed

text \<open>
  C2. The claim is that an image with no component but the background gets the mask of
  zeros. On a 2 by 2 image whose labelled image is all background, \<open>sizes\<close> is \<open>[0]\<close>
  after the background count is zeroed, \<open>argmax\<close> is the background label 0, and the mask
  returned is 1 everywhere. \<open>check_mask\<close> rejects it, with the area ratio 1 and not 0.
\<close>

theorem find_sign_area_no_component_all_ones:
  "find_sign_area (\<lambda>img sigma. [[False, False], [False, False]]) (\<lambda>edges. edges)
       (\<lambda>fill. ([[0, 0], [0, 0]], 0)) () 1
     = Inr [[1, 1], [1, 1]] \<and>
   area_ratio [[1, 1], [1, 1]] = Fin 1 \<and>
   check_mask [[1, 1], [1, 1]] = False"
  by (simp add: find_sign_area_def np_bincount_def np_argmax_def area_ratio_def check_mask_def
      np_sum2_def shape0_def shape1_def MASK_THRES_MAX_def MASK_THRES_MIN_def upt_rec Let_def)

end
